theory Spec2Isabelle
  imports Main
begin

section \<open>Python values used by the service\<close>

text \<open>
  The service is Python. A \<^verbatim>\<open>dict\<close> keeps its keys in insertion order, assigning to
  an existing key keeps the key's position, and \<^verbatim>\<open>next(iter(d))\<close> is the oldest key
  still present, so the two registries of the browser manager are association lists
  with the three operations below.
\<close>

definition dict_get :: "('k \<times> 'v) list \<Rightarrow> 'k \<Rightarrow> 'v option" where
  "dict_get d k = map_of d k"

primrec dict_set :: "'k \<Rightarrow> 'v \<Rightarrow> ('k \<times> 'v) list \<Rightarrow> ('k \<times> 'v) list" where
  "dict_set k v [] = [(k, v)]"
| "dict_set k v (e # es) = (if fst e = k then (k, v) # es else e # dict_set k v es)"

definition dict_pop :: "'k \<Rightarrow> ('k \<times> 'v) list \<Rightarrow> ('k \<times> 'v) list" where
  "dict_pop k d = filter (\<lambda>e. fst e \<noteq> k) d"

definition dict_keys :: "('k \<times> 'v) list \<Rightarrow> 'k list" where
  "dict_keys d = map fst d"

text \<open>Truthiness of an \<^verbatim>\<open>Optional[str]\<close>: \<^verbatim>\<open>None\<close> and the empty string are false.\<close>

fun truthy :: "string option \<Rightarrow> bool" where
  "truthy None = False"
| "truthy (Some s) = (s \<noteq> [])"

text \<open>\<^verbatim>\<open>not a\<close> on an \<^verbatim>\<open>Optional[str]\<close>.\<close>

fun py_not :: "string option \<Rightarrow> bool" where
  "py_not None = True"
| "py_not (Some s) = (s = [])"

text \<open>\<^verbatim>\<open>a or b\<close> on two optional strings, and with a string for \<^verbatim>\<open>b\<close>.\<close>

definition py_or :: "string option \<Rightarrow> string option \<Rightarrow> string option" where
  "py_or a b = (if truthy a then a else b)"

definition or_default :: "string option \<Rightarrow> string \<Rightarrow> string" where
  "or_default a d = (case a of None \<Rightarrow> d | Some x \<Rightarrow> if x = [] then d else x)"

definition startswith :: "string \<Rightarrow> string \<Rightarrow> bool" where
  "startswith s p = (take (length p) s = p)"

text \<open>\<^verbatim>\<open>str(n)\<close> for the counters, which are never negative.\<close>

fun str_nat :: "nat \<Rightarrow> string" where
  "str_nat n =
     (if n < 10 then [''0123456789'' ! n]
      else str_nat (n div 10) @ [''0123456789'' ! (n mod 10)])"

declare str_nat.simps [simp del]

section \<open>The browser manager (src/app/browser\_manager.py)\<close>

text \<open>
  Playwright objects are compared by identity, so each one is a handle that the driver
  hands out once. A page knows the context that opened it (\<^verbatim>\<open>page.context\<close>).
\<close>

datatype browser = Browser (browser_handle: nat) (is_connected: bool)

datatype page = Page (page_handle: nat) (page_context: nat)

datatype driver_event =
    PlaywrightStart nat
  | Launch nat
  | NewContext nat
  | NewPage nat nat
  | PageClose nat
  | ContextClose nat
  | BrowserClose nat
  | PlaywrightStop nat


datatype py_error =
  DriverError | ValueError | ConnectionError | KeyError | AttributeError | TypeError

text \<open>
  The fields of \<^verbatim>\<open>BrowserManager\<close>, followed by the part of the outside world the manager
  talks to: the next unused object handle, the calls the driver has carried out, and the
  outcomes of the driver calls still to come (\<open>False\<close>: the call raises; an exhausted
  list: every further call succeeds). Launch and context options only travel to the
  driver and are stored nowhere, so they are left out.
\<close>

record manager =
  playwright :: "nat option"
  browser :: "browser option"
  contexts :: "(string \<times> nat) list"
  pages :: "(string \<times> page) list"
  active_context_id :: "string option"
  active_page_id :: "string option"
  context_counter :: nat
  page_counter :: nat
  next_handle :: nat
  driver_log :: "driver_event list"
  driver_script :: "bool list"

definition default_context_id_prefix :: string where
  "default_context_id_prefix = ''default_ctx_''"

definition default_page_id_prefix :: string where
  "default_page_id_prefix = ''default_page_''"

text \<open>\<^verbatim>\<open>BrowserManager.__init__\<close>, with the driver outcomes to come.\<close>

definition init_manager :: "bool list \<Rightarrow> manager" where
  "init_manager script =
     \<lparr> playwright = None, browser = None, contexts = [], pages = [],
       active_context_id = None, active_page_id = None,
       context_counter = 0, page_counter = 0,
       next_handle = 0, driver_log = [], driver_script = script \<rparr>"

text \<open>One awaited driver call: whether it succeeds, and the outcomes left.\<close>

definition driver_call :: "manager \<Rightarrow> bool \<times> manager" where
  "driver_call s =
     (case driver_script s of
        [] \<Rightarrow> (True, s)
      | ok # rest \<Rightarrow> (ok, s\<lparr>driver_script := rest\<rparr>))"

definition record_event :: "driver_event \<Rightarrow> manager \<Rightarrow> manager" where
  "record_event e s = s\<lparr>driver_log := driver_log s @ [e]\<rparr>"

text \<open>\<^verbatim>\<open>self.browser and self.browser.is_connected()\<close>\<close>

definition running :: "manager \<Rightarrow> bool" where
  "running s = (case browser s of None \<Rightarrow> False | Some b \<Rightarrow> is_connected b)"

text \<open>
  \<^verbatim>\<open>create_page\<close>, \<^verbatim>\<open>create_context\<close> and \<^verbatim>\<open>start_browser\<close> call one another. The cycle
  is cut where the source cannot re-enter: \<^verbatim>\<open>create_context\<close> calls \<^verbatim>\<open>create_page\<close> with the
  id it has just stored, so that call goes straight to line 95 (\<open>create_page_in\<close>), and
  \<^verbatim>\<open>start_browser\<close> calls \<^verbatim>\<open>create_context\<close> right after a launch, when the browser is
  connected, so that call goes straight to line 64 (\<open>create_context_running\<close>).
\<close>

text \<open>Lines 95-103 of \<^verbatim>\<open>create_page\<close>: the target context id is resolved.\<close>

definition create_page_in ::
  "manager \<Rightarrow> string \<Rightarrow> string option \<Rightarrow> (py_error + string) \<times> manager" where
  "create_page_in s target_context_id page_id =
     (case dict_get (contexts s) target_context_id of
        None \<Rightarrow> (Inl KeyError, s)
      | Some context \<Rightarrow>
          (case driver_call s of
             (False, s1) \<Rightarrow> (Inl DriverError, s1)
           | (True, s1) \<Rightarrow>
               let new_page = Page (next_handle s1) context;
                   s2 = record_event (NewPage (next_handle s1) context)
                          (s1\<lparr>next_handle := Suc (next_handle s1)\<rparr>);
                   s3 = s2\<lparr>page_counter := page_counter s2 + 1\<rparr>;
                   p_id = or_default page_id
                            (default_page_id_prefix @ str_nat (page_counter s3));
                   s4 = s3\<lparr>pages := dict_set p_id new_page (pages s3)\<rparr>;
                   s5 = (if py_not (active_page_id s4) \<or>
                            (truthy page_id \<and>
                             (case page_id of
                                None \<Rightarrow> False
                              | Some p \<Rightarrow> startswith p ''initial_page_for_''))
                         then s4\<lparr>active_page_id := Some p_id\<rparr> else s4)
               in (Inr p_id, s5)))"

text \<open>Lines 64-83 of \<^verbatim>\<open>create_context\<close>: the browser has been checked or started.\<close>

definition create_context_running ::
  "manager \<Rightarrow> string option \<Rightarrow> (py_error + string) \<times> manager" where
  "create_context_running s context_id =
     (case browser s of
        None \<Rightarrow> (Inl ConnectionError, s)
      | Some b \<Rightarrow>
          (case driver_call s of
             (False, s1) \<Rightarrow> (Inl DriverError, s1)
           | (True, s1) \<Rightarrow>
               let new_context = next_handle s1;
                   s2 = record_event (NewContext new_context)
                          (s1\<lparr>next_handle := Suc (next_handle s1)\<rparr>);
                   s3 = s2\<lparr>context_counter := context_counter s2 + 1\<rparr>;
                   c_id = or_default context_id
                            (default_context_id_prefix @ str_nat (context_counter s3));
                   s4 = s3\<lparr>contexts := dict_set c_id new_context (contexts s3)\<rparr>;
                   s5 = (if py_not (active_context_id s4) \<or>
                            context_id = Some ''initial_default_context''
                         then s4\<lparr>active_context_id := Some c_id\<rparr> else s4)
               in (case create_page_in s5 c_id (Some (''initial_page_for_'' @ c_id)) of
                     (Inl e, s6) \<Rightarrow> (Inl e, s6)
                   | (Inr p, s6) \<Rightarrow> (Inr c_id, s6))))"

text \<open>\<^verbatim>\<open>if self.playwright: await self.playwright.stop()\<close> in the handler of a failed launch.\<close>

definition stop_playwright :: "manager \<Rightarrow> manager" where
  "stop_playwright s =
     (case playwright s of None \<Rightarrow> s | Some pw \<Rightarrow> record_event (PlaywrightStop pw) s)"

definition start_browser :: "manager \<Rightarrow> (py_error + unit) \<times> manager" where
  "start_browser s =
     (if running s then (Inr (), s)
      else
        (case driver_call s of
           (False, s1) \<Rightarrow> (Inl DriverError, s1)
         | (True, s1) \<Rightarrow>
             let s2 = record_event (PlaywrightStart (next_handle s1))
                        (s1\<lparr>playwright := Some (next_handle s1),
                            next_handle := Suc (next_handle s1)\<rparr>)
             in (case driver_call s2 of
                   (False, s3) \<Rightarrow> (Inl DriverError, stop_playwright s3)
                 | (True, s3) \<Rightarrow>
                     let s4 = record_event (Launch (next_handle s3))
                                (s3\<lparr>browser := Some (Browser (next_handle s3) True),
                                    next_handle := Suc (next_handle s3)\<rparr>)
                     in (case create_context_running s4 (Some ''initial_default_context'') of
                           (Inl e, s5) \<Rightarrow> (Inl e, stop_playwright s5)
                         | (Inr c, s5) \<Rightarrow> (Inr (), s5)))))"

definition create_context ::
  "manager \<Rightarrow> string option \<Rightarrow> (py_error + string) \<times> manager" where
  "create_context s context_id =
     (if \<not> running s then
        (case start_browser s of
           (Inl e, s1) \<Rightarrow> (Inl e, s1)
         | (Inr u, s1) \<Rightarrow> create_context_running s1 context_id)
      else create_context_running s context_id)"

definition create_page ::
  "manager \<Rightarrow> string option \<Rightarrow> string option \<Rightarrow> (py_error + string) \<times> manager" where
  "create_page s context_id page_id =
     (let target_context_id = py_or context_id (active_context_id s) in
      if py_not target_context_id \<or>
         (case target_context_id of
            None \<Rightarrow> True
          | Some t \<Rightarrow> t \<notin> set (dict_keys (contexts s)))
      then
        (if py_not (active_context_id s) then
           (case create_context s None of
              (Inl e, s1) \<Rightarrow> (Inl e, s1)
            | (Inr c, s1) \<Rightarrow> create_page_in s1 c page_id)
         else (Inl ValueError, s))
      else
        (case target_context_id of
           None \<Rightarrow> (Inl KeyError, s)
         | Some t \<Rightarrow> create_page_in s t page_id))"


definition get_page_by_id :: "manager \<Rightarrow> string \<Rightarrow> page option" where
  "get_page_by_id s page_id = dict_get (pages s) page_id"

definition get_active_context :: "manager \<Rightarrow> nat option" where
  "get_active_context s =
     (if truthy (active_context_id s) then
        (case active_context_id s of None \<Rightarrow> None | Some c \<Rightarrow> dict_get (contexts s) c)
      else None)"

definition get_context_by_id :: "manager \<Rightarrow> string \<Rightarrow> nat option" where
  "get_context_by_id s context_id = dict_get (contexts s) context_id"

text \<open>The scan of lines 135-139: the oldest tracked page opened by the context.\<close>

definition first_page_of :: "(string \<times> page) list \<Rightarrow> nat \<Rightarrow> string option" where
  "first_page_of ps context =
     (case filter (\<lambda>e. page_context (snd e) = context) ps of
        [] \<Rightarrow> None
      | e # es \<Rightarrow> Some (fst e))"

definition set_active_context :: "manager \<Rightarrow> string \<Rightarrow> bool \<times> manager" where
  "set_active_context s context_id =
     (case dict_get (contexts s) context_id of
        None \<Rightarrow> (False, s)
      | Some context \<Rightarrow>
          (True, s\<lparr>active_context_id := Some context_id,
                   active_page_id := first_page_of (pages s) context\<rparr>))"

text \<open>The scan of lines 154-159: the oldest tracked id of the page's context.\<close>

definition first_context_id_of :: "(string \<times> nat) list \<Rightarrow> nat \<Rightarrow> string option" where
  "first_context_id_of cs context =
     (case filter (\<lambda>e. snd e = context) cs of
        [] \<Rightarrow> None
      | e # es \<Rightarrow> Some (fst e))"

definition set_active_page :: "manager \<Rightarrow> string \<Rightarrow> bool \<times> manager" where
  "set_active_page s page_id =
     (case dict_get (pages s) page_id of
        None \<Rightarrow> (False, s)
      | Some pg \<Rightarrow>
          let s1 = s\<lparr>active_page_id := Some page_id\<rparr>
          in (case first_context_id_of (contexts s1) (page_context pg) of
                None \<Rightarrow> (True, s1)
              | Some ctx_id \<Rightarrow> (True, s1\<lparr>active_context_id := Some ctx_id\<rparr>)))"

definition close_page :: "manager \<Rightarrow> string \<Rightarrow> (py_error + bool) \<times> manager" where
  "close_page s page_id =
     (case dict_get (pages s) page_id of
        None \<Rightarrow> (Inr False, s)
      | Some pg \<Rightarrow>
          (case driver_call (s\<lparr>pages := dict_pop page_id (pages s)\<rparr>) of
             (False, s1) \<Rightarrow> (Inl DriverError, s1)
           | (True, s1) \<Rightarrow>
               let s2 = record_event (PageClose (page_handle pg)) s1
               in (Inr True,
                   if active_page_id s2 = Some page_id then
                     s2\<lparr>active_page_id :=
                          (case pages s2 of [] \<Rightarrow> None | e # es \<Rightarrow> Some (fst e))\<rparr>
                   else s2)))"

text \<open>The loop of lines 185-186; an exception of \<^verbatim>\<open>close_page\<close> ends it.\<close>

fun close_pages :: "manager \<Rightarrow> string list \<Rightarrow> (py_error + unit) \<times> manager" where
  "close_pages s [] = (Inr (), s)"
| "close_pages s (pid # pids) =
     (case close_page s pid of
        (Inl e, s1) \<Rightarrow> (Inl e, s1)
      | (Inr b, s1) \<Rightarrow> close_pages s1 pids)"

definition close_context :: "manager \<Rightarrow> string \<Rightarrow> (py_error + bool) \<times> manager" where
  "close_context s context_id =
     (case dict_get (contexts s) context_id of
        None \<Rightarrow> (Inr False, s)
      | Some context \<Rightarrow>
          let s1 = s\<lparr>contexts := dict_pop context_id (contexts s)\<rparr>;
              pages_to_close =
                map fst (filter (\<lambda>e. page_context (snd e) = context) (pages s1))
          in (case close_pages s1 pages_to_close of
                (Inl e, s2) \<Rightarrow> (Inl e, s2)
              | (Inr u, s2) \<Rightarrow>
                  (case driver_call s2 of
                     (False, s3) \<Rightarrow> (Inl DriverError, s3)
                   | (True, s3) \<Rightarrow>
                       let s4 = record_event (ContextClose context) s3
                       in (Inr True,
                           if active_context_id s4 = Some context_id then
                             (case contexts s4 of
                                [] \<Rightarrow> s4\<lparr>active_context_id := None\<rparr>
                              | e # es \<Rightarrow>
                                  snd (set_active_context
                                         (s4\<lparr>active_context_id := Some (fst e)\<rparr>) (fst e)))
                           else s4))))"

definition close_browser :: "manager \<Rightarrow> (py_error + unit) \<times> manager" where
  "close_browser s =
     (case (if running s then
              (case driver_call s of
                 (False, s1) \<Rightarrow> Inl s1
               | (True, s1) \<Rightarrow>
                   Inr ((case browser s1 of
                           None \<Rightarrow> s1
                         | Some b \<Rightarrow> record_event (BrowserClose (browser_handle b)) s1)
                        \<lparr>browser := None\<rparr>))
            else Inr s) of
        Inl s1 \<Rightarrow> (Inl DriverError, s1)
      | Inr s1 \<Rightarrow>
          (case (case playwright s1 of
                   None \<Rightarrow> Inr s1
                 | Some pw \<Rightarrow>
                     (case driver_call s1 of
                        (False, s2) \<Rightarrow> Inl s2
                      | (True, s2) \<Rightarrow>
                          Inr (record_event (PlaywrightStop pw) s2\<lparr>playwright := None\<rparr>))) of
             Inl s2 \<Rightarrow> (Inl DriverError, s2)
           | Inr s2 \<Rightarrow>
               (Inr (), s2\<lparr>contexts := [], pages := [],
                           active_context_id := None, active_page_id := None\<rparr>)))"

subsection \<open>Sequences of public operations\<close>

datatype operation =
    StartBrowser
  | CreateContext "string option"
  | CreatePage "string option" "string option"
  | SetActiveContext string
  | SetActivePage string
  | ClosePage string
  | CloseContext string
  | CloseBrowser

text \<open>The manager after one call; a call that raises leaves what it had changed so far.\<close>

fun apply_operation :: "manager \<Rightarrow> operation \<Rightarrow> manager" where
  "apply_operation s StartBrowser = snd (start_browser s)"
| "apply_operation s (CreateContext context_id) = snd (create_context s context_id)"
| "apply_operation s (CreatePage context_id page_id) = snd (create_page s context_id page_id)"
| "apply_operation s (SetActiveContext context_id) = snd (set_active_context s context_id)"
| "apply_operation s (SetActivePage page_id) = snd (set_active_page s page_id)"
| "apply_operation s (ClosePage page_id) = snd (close_page s page_id)"
| "apply_operation s (CloseContext context_id) = snd (close_context s context_id)"
| "apply_operation s CloseBrowser = snd (close_browser s)"

definition run_operations :: "manager \<Rightarrow> operation list \<Rightarrow> manager" where
  "run_operations s ops = foldl apply_operation s ops"

text \<open>
  The selection invariant of the data model: when \<^verbatim>\<open>_active_page_id\<close> names a tracked
  page, \<^verbatim>\<open>_active_context_id\<close> names the context that opened it.
\<close>

definition selection_consistent :: "manager \<Rightarrow> bool" where
  "selection_consistent s =
     (case active_page_id s of
        None \<Rightarrow> True
      | Some p \<Rightarrow>
          (case dict_get (pages s) p of
             None \<Rightarrow> True
           | Some pg \<Rightarrow>
               (case active_context_id s of
                  None \<Rightarrow> False
                | Some c \<Rightarrow> dict_get (contexts s) c = Some (page_context pg))))"

text \<open>
  What the two association lists owe to being Python dicts whose keys come from
  \<^verbatim>\<open>x or default\<close>: no id occurs twice and no id is the empty string.
\<close>

definition registry_wf :: "manager \<Rightarrow> bool" where
  "registry_wf s =
     (distinct (dict_keys (contexts s)) \<and> [] \<notin> set (dict_keys (contexts s)) \<and>
      distinct (dict_keys (pages s)) \<and> [] \<notin> set (dict_keys (pages s)))"

text \<open>The ids of the tracked pages a context object owns.\<close>

definition pages_of :: "manager \<Rightarrow> nat \<Rightarrow> string list" where
  "pages_of s context = map fst (filter (\<lambda>e. page_context (snd e) = context) (pages s))"

section \<open>JSON-RPC helpers (src/app/utils.py)\<close>

text \<open>
  A parsed JSON document. An object holds the items of the resulting \<^verbatim>\<open>dict\<close>; the
  payload of a float is never looked at by the service.
\<close>

datatype json =
    JNull
  | JBool bool
  | JInt int
  | JFloat int int
  | JStr string
  | JArr "json list"
  | JObj "(string \<times> json) list"

definition JSON_RPC_PARSE_ERROR :: int where "JSON_RPC_PARSE_ERROR = - 32700"
definition JSON_RPC_INVALID_REQUEST :: int where "JSON_RPC_INVALID_REQUEST = - 32600"
definition JSON_RPC_METHOD_NOT_FOUND :: int where "JSON_RPC_METHOD_NOT_FOUND = - 32601"
definition JSON_RPC_INVALID_PARAMS :: int where "JSON_RPC_INVALID_PARAMS = - 32602"
definition JSON_RPC_INTERNAL_ERROR :: int where "JSON_RPC_INTERNAL_ERROR = - 32603"
definition BROWSER_OPERATION_ERROR :: int where "BROWSER_OPERATION_ERROR = - 32000"

text \<open>\<^verbatim>\<open>d.get(key)\<close>: \<^verbatim>\<open>None\<close>, which is JSON's null, for a missing key.\<close>

definition json_get :: "(string \<times> json) list \<Rightarrow> string \<Rightarrow> json" where
  "json_get d k = (case dict_get d k of None \<Rightarrow> JNull | Some v \<Rightarrow> v)"

text \<open>Truthiness of a JSON value (\<^verbatim>\<open>if not x\<close>).\<close>

fun json_truthy :: "json \<Rightarrow> bool" where
  "json_truthy JNull = False"
| "json_truthy (JBool b) = b"
| "json_truthy (JInt i) = (i \<noteq> 0)"
| "json_truthy (JFloat m e) = (m \<noteq> 0)"
| "json_truthy (JStr s) = (s \<noteq> [])"
| "json_truthy (JArr xs) = (xs \<noteq> [])"
| "json_truthy (JObj kvs) = (kvs \<noteq> [])"

definition apostrophe :: string where
  "apostrophe = [CHR 0x27]"

definition create_jsonrpc_error :: "json \<Rightarrow> int \<Rightarrow> string \<Rightarrow> json \<Rightarrow> json" where
  "create_jsonrpc_error rid code message data =
     JObj [(''jsonrpc'', JStr ''2.0''),
           (''error'',
            JObj ([(''code'', JInt code), (''message'', JStr message)] @
                  (if data = JNull then [] else [(''data'', data)]))),
           (''id'', rid)]"

definition create_jsonrpc_success :: "json \<Rightarrow> json \<Rightarrow> json" where
  "create_jsonrpc_success rid result =
     JObj [(''jsonrpc'', JStr ''2.0''), (''result'', result), (''id'', rid)]"

text \<open>
  What a handler can raise: an \<^verbatim>\<open>RPCException(code, message, id, data)\<close>, or any other
  \<^verbatim>\<open>Exception\<close>.
\<close>

datatype exn =
    RPCException (exn_code: int) (exn_message: string) (exn_id: json) (exn_data: json)
  | PyException py_error

definition to_json_response :: "int \<Rightarrow> string \<Rightarrow> json \<Rightarrow> json \<Rightarrow> json" where
  "to_json_response code message rid data = create_jsonrpc_error rid code message data"

text \<open>\<^verbatim>\<open>isinstance(x, (dict, list))\<close>\<close>

fun isinstance_dict_list :: "json \<Rightarrow> bool" where
  "isinstance_dict_list (JObj kvs) = True"
| "isinstance_dict_list (JArr xs) = True"
| "isinstance_dict_list other = False"

definition get_params :: "(string \<times> json) list \<Rightarrow> exn + json" where
  "get_params request_data =
     (let params = json_get request_data ''params'' in
      if params = JNull then Inr (JObj [])
      else if \<not> isinstance_dict_list params then
        Inl (RPCException JSON_RPC_INVALID_PARAMS
               ''Invalid params: Must be object or array.''
               (json_get request_data ''id'') JNull)
      else Inr params)"


section \<open>The routes module (src/app/routes.py)\<close>

text \<open>
  The module global \<^verbatim>\<open>_browser_manager\<close>: unset, the manager, or whatever else a call of
  \<^verbatim>\<open>initialize_routes\<close> stored there.
\<close>

datatype manager_global = NoManager | TheManager manager | NotAManager json

record routes_state =
  browser_manager :: manager_global

text \<open>
  What the Python runtime and the handlers that only drive the browser contribute:
  the bodies of the decorated functions other than \<^verbatim>\<open>puppeteer_close_context\<close>, the
  attributes every module object has besides the names its source binds, and the text
  \<^verbatim>\<open>str(e)\<close> of an exception that is not an \<^verbatim>\<open>RPCException\<close>.
\<close>

record runtime =
  api_bodies :: "string \<Rightarrow> routes_state \<Rightarrow> json \<Rightarrow> json \<Rightarrow> (exn + json) \<times> routes_state"
  interpreter_attr :: "string \<Rightarrow> bool"
  exc_text :: "py_error \<Rightarrow> string"

text \<open>The decorator: every outcome of the wrapped function becomes an envelope.\<close>

definition api_method_handler ::
  "runtime \<Rightarrow> (routes_state \<Rightarrow> json \<Rightarrow> json \<Rightarrow> (exn + json) \<times> routes_state) \<Rightarrow>
   routes_state \<Rightarrow> json \<Rightarrow> json \<Rightarrow> json \<times> routes_state" where
  "api_method_handler rt func_to_be_wrapped st params rpc_id =
     (case func_to_be_wrapped st params rpc_id of
        (Inr result, st1) \<Rightarrow> (create_jsonrpc_success rpc_id result, st1)
      | (Inl (RPCException code message eid data), st1) \<Rightarrow>
          (create_jsonrpc_error (if eid = JNull then rpc_id else eid) code message data, st1)
      | (Inl (PyException e), st1) \<Rightarrow>
          (create_jsonrpc_error rpc_id JSON_RPC_INTERNAL_ERROR
             (''Internal server error: '' @ exc_text rt e) JNull, st1))"

definition puppeteer_close_context ::
  "runtime \<Rightarrow> routes_state \<Rightarrow> json \<Rightarrow> json \<Rightarrow> (exn + json) \<times> routes_state" where
  "puppeteer_close_context rt st params rpc_id =
     (case params of
        JObj kvs \<Rightarrow>
          (case json_get kvs ''context_id'' of
             JStr context_id \<Rightarrow>
               if context_id = [] then
                 (Inl (RPCException JSON_RPC_INVALID_PARAMS
                         (apostrophe @ ''context_id'' @ apostrophe @
                          '' parameter is required and must be a string.'')
                         rpc_id JNull), st)
               else
                 (case browser_manager st of
                    NoManager \<Rightarrow>
                      (Inl (RPCException BROWSER_OPERATION_ERROR
                              ''Browser manager not initialized.'' rpc_id JNull), st)
                  | NotAManager j \<Rightarrow>
                      if json_truthy j then
                        (Inl (RPCException BROWSER_OPERATION_ERROR
                                (''Failed to close context: '' @ exc_text rt AttributeError)
                                rpc_id JNull), st)
                      else
                        (Inl (RPCException BROWSER_OPERATION_ERROR
                                ''Browser manager not initialized.'' rpc_id JNull), st)
                  | TheManager m \<Rightarrow>
                      (case close_context m context_id of
                         (Inl e, m1) \<Rightarrow>
                           (Inl (RPCException BROWSER_OPERATION_ERROR
                                   (''Failed to close context: '' @ exc_text rt e)
                                   rpc_id JNull),
                            st\<lparr>browser_manager := TheManager m1\<rparr>)
                       | (Inr success, m1) \<Rightarrow>
                           if success then
                             (Inr (JObj [(''status'', JStr ''success''),
                                         (''closed_context_id'', JStr context_id)]),
                              st\<lparr>browser_manager := TheManager m1\<rparr>)
                           else
                             (Inl (RPCException BROWSER_OPERATION_ERROR
                                     (''Failed to close context: '' @
                                      ''Failed to close context ID '' @ apostrophe @ context_id @
                                      apostrophe @
                                      ''. Context not found or already closed.'')
                                     rpc_id JNull),
                              st\<lparr>browser_manager := TheManager m1\<rparr>)))
           | other \<Rightarrow>
               (Inl (RPCException JSON_RPC_INVALID_PARAMS
                       (apostrophe @ ''context_id'' @ apostrophe @
                          '' parameter is required and must be a string.'')
                       rpc_id JNull), st))
      | other \<Rightarrow> (Inl (PyException AttributeError), st))"

text \<open>
  What a name bound by the source of the module is: a function decorated with
  \<^verbatim>\<open>@api_method_handler\<close>, the plain function \<^verbatim>\<open>initialize_routes\<close>, or something whose
  call with two arguments, or the \<^verbatim>\<open>await\<close> of its result, raises a \<^verbatim>\<open>TypeError\<close>
  (an import, a constant, a global, \<^verbatim>\<open>_get_active_page_or_raise\<close>).
\<close>

datatype attr = ApiMethod | InitializeRoutes | NotAHandler

definition routes_names :: "(string \<times> attr) list" where
  "routes_names =
     [(''BrowserManager'', NotAHandler), (''ConfigLoader'', NotAHandler),
      (''api_method_handler'', NotAHandler), (''RPCException'', NotAHandler),
      (''BROWSER_OPERATION_ERROR'', NotAHandler), (''PAGE_NOT_AVAILABLE_ERROR'', NotAHandler),
      (''JSON_RPC_INVALID_PARAMS'', NotAHandler), (''ELEMENT_NOT_FOUND_ERROR'', NotAHandler),
      (''Dict'', NotAHandler), (''Any'', NotAHandler), (''Optional'', NotAHandler),
      (''Union'', NotAHandler), (''List'', NotAHandler),
      (''base64'', NotAHandler), (''os'', NotAHandler), (''logging'', NotAHandler),
      (''logger'', NotAHandler),
      (''_browser_manager'', NotAHandler), (''_config_loader'', NotAHandler),
      (''initialize_routes'', InitializeRoutes),
      (''_get_active_page_or_raise'', NotAHandler),
      (''puppeteer_navigate'', ApiMethod),
      (''puppeteer_get_page_title'', ApiMethod),
      (''puppeteer_get_current_url'', ApiMethod),
      (''puppeteer_take_page_screenshot'', ApiMethod),
      (''puppeteer_get_page_content'', ApiMethod),
      (''puppeteer_click_element'', ApiMethod),
      (''puppeteer_fill_form_field'', ApiMethod),
      (''puppeteer_get_element_text'', ApiMethod),
      (''puppeteer_execute_javascript'', ApiMethod),
      (''puppeteer_create_context'', ApiMethod),
      (''puppeteer_switch_context'', ApiMethod),
      (''puppeteer_close_context'', ApiMethod),
      (''puppeteer_get_element_attribute'', ApiMethod),
      (''puppeteer_get_console_logs'', ApiMethod)]"

text \<open>\<^verbatim>\<open>getattr(routes, name)\<close>, with \<open>None\<close> where \<^verbatim>\<open>hasattr(routes, name)\<close> is false.\<close>

definition routes_getattr :: "runtime \<Rightarrow> string \<Rightarrow> attr option" where
  "routes_getattr rt name =
     (case dict_get routes_names name of
        Some a \<Rightarrow> Some a
      | None \<Rightarrow> if interpreter_attr rt name then Some NotAHandler else None)"

text \<open>The undecorated function behind an api method.\<close>

definition routes_body ::
  "runtime \<Rightarrow> string \<Rightarrow> routes_state \<Rightarrow> json \<Rightarrow> json \<Rightarrow> (exn + json) \<times> routes_state" where
  "routes_body rt name =
     (if name = ''puppeteer_close_context'' then puppeteer_close_context rt
      else api_bodies rt name)"

section \<open>The dispatcher (src/main.py)\<close>

text \<open>\<^verbatim>\<open>method_name.replace(".", "_")\<close>\<close>

definition replace_dots :: "string \<Rightarrow> string" where
  "replace_dots method_name = map (\<lambda>c. if c = CHR ''.'' then CHR ''_'' else c) method_name"

text \<open>
  \<^verbatim>\<open>jsonrpc_handler\<close>. The body is \<open>None\<close> when \<^verbatim>\<open>request.json()\<close> raises. The result is
  the content of the response, or on the left the exception that leaves the handler.
\<close>

definition jsonrpc_handler ::
  "runtime \<Rightarrow> routes_state \<Rightarrow> json option \<Rightarrow> (py_error + json) \<times> routes_state" where
  "jsonrpc_handler rt st body =
     (case body of
        None \<Rightarrow> (Inr (create_jsonrpc_error JNull JSON_RPC_PARSE_ERROR ''Parse error'' JNull), st)
      | Some (JObj request_data) \<Rightarrow>
          let rpc_id = json_get request_data ''id'' in
          if json_get request_data ''jsonrpc'' = JStr ''2.0'' \<and>
             ''method'' \<in> set (dict_keys request_data)
          then
            (case json_get request_data ''method'' of
               JStr method_name \<Rightarrow>
                 let api_function_name = replace_dots method_name in
                 (case routes_getattr rt api_function_name of
                    None \<Rightarrow>
                      (Inr (create_jsonrpc_error rpc_id JSON_RPC_METHOD_NOT_FOUND
                              ''Method not found'' JNull), st)
                  | Some api_function \<Rightarrow>
                      (case get_params request_data of
                         Inl (RPCException code message eid data) \<Rightarrow>
                           (Inr (to_json_response code message rpc_id data), st)
                       | Inl (PyException e) \<Rightarrow>
                           (Inr (create_jsonrpc_error rpc_id JSON_RPC_INTERNAL_ERROR
                                   (''Server error: '' @ exc_text rt e) JNull), st)
                       | Inr params \<Rightarrow>
                           (case api_function of
                              ApiMethod \<Rightarrow>
                                (case api_method_handler rt (routes_body rt api_function_name)
                                        st params rpc_id of
                                   (response_dict, st1) \<Rightarrow> (Inr response_dict, st1))
                            | InitializeRoutes \<Rightarrow>
                                (Inr (create_jsonrpc_error rpc_id JSON_RPC_INTERNAL_ERROR
                                        (''Server error: '' @ exc_text rt TypeError) JNull),
                                 st\<lparr>browser_manager := NotAManager params\<rparr>)
                            | NotAHandler \<Rightarrow>
                                (Inr (create_jsonrpc_error rpc_id JSON_RPC_INTERNAL_ERROR
                                        (''Server error: '' @ exc_text rt TypeError) JNull),
                                 st))))
             | other \<Rightarrow> (Inl AttributeError, st))
          else
            (Inr (create_jsonrpc_error rpc_id JSON_RPC_INVALID_REQUEST
                    ''Invalid Request'' JNull), st)
      | Some other \<Rightarrow> (Inl AttributeError, st))"



section \<open>Properties of the browser manager\<close>

lemmas registry_defs =
  start_browser_def init_manager_def running_def driver_call_def record_event_def
  create_context_def create_context_running_def create_page_def create_page_in_def
  dict_get_def dict_keys_def dict_pop_def or_default_def py_or_def startswith_def
  default_context_id_prefix_def default_page_id_prefix_def

subsection \<open>Well-formed registries\<close>

lemma image_fst_dict_set: "fst ` set (dict_set k v d) = insert k (fst ` set d)"
  by (induction d) auto

lemma set_dict_keys_dict_set: "set (dict_keys (dict_set k v d)) = insert k (set (dict_keys d))"
  by (simp add: dict_keys_def image_fst_dict_set)

lemma distinct_dict_set: "distinct (dict_keys (dict_set k v d)) = distinct (dict_keys d)"
  by (induction d) (auto simp: dict_keys_def image_fst_dict_set)

lemma distinct_dict_pop: "distinct (dict_keys d) \<Longrightarrow> distinct (dict_keys (dict_pop k d))"
  unfolding dict_keys_def dict_pop_def by (rule distinct_map_filter)

lemma set_dict_keys_dict_pop: "set (dict_keys (dict_pop k d)) \<subseteq> set (dict_keys d)"
  by (auto simp: dict_keys_def dict_pop_def)

lemma or_default_Cons: "or_default a (c # cs) \<noteq> []" "[] \<noteq> or_default a (c # cs)"
  by (simp_all add: or_default_def split: option.splits)

lemma wf_driver_call: "registry_wf s \<Longrightarrow> registry_wf (snd (driver_call s))"
  by (simp add: driver_call_def registry_wf_def split: list.splits)

lemma wf_create_page_in:
  assumes "registry_wf s"
  shows "registry_wf (snd (create_page_in s t p))"
proof (cases "dict_get (contexts s) t")
  case None
  with assms show ?thesis by (simp add: create_page_in_def)
next
  case (Some ctx)
  obtain ok s1 where d: "driver_call s = (ok, s1)" by (cases "driver_call s")
  have w1: "registry_wf s1" using wf_driver_call [OF assms] d by simp
  show ?thesis
  proof (cases ok)
    case False
    with Some d w1 show ?thesis by (simp add: create_page_in_def)
  next
    case True
    with Some d w1 show ?thesis
      by (simp add: create_page_in_def record_event_def Let_def registry_wf_def
          distinct_dict_set set_dict_keys_dict_set or_default_Cons default_page_id_prefix_def)
  qed
qed

lemma wf_create_context_running:
  assumes "registry_wf s"
  shows "registry_wf (snd (create_context_running s c))"
proof (cases "browser s")
  case None
  with assms show ?thesis by (simp add: create_context_running_def)
next
  case (Some b)
  show ?thesis
  proof (cases "driver_call s")
    case (Pair ok s1)
    have w1: "registry_wf s1" using assms Pair
      by (auto simp: driver_call_def registry_wf_def split: list.splits)
    show ?thesis
    proof (cases ok)
      case False
      with Some Pair w1 show ?thesis by (simp add: create_context_running_def)
    next
      case True
      define c_id where "c_id = or_default c
         (default_context_id_prefix @ str_nat (context_counter s1 + 1))"
      define s5 where "s5 =
         (let s4 = (record_event (NewContext (next_handle s1))
                          (s1\<lparr>next_handle := Suc (next_handle s1)\<rparr>))
                   \<lparr>context_counter := context_counter s1 + 1,
                     contexts := dict_set c_id (next_handle s1) (contexts s1)\<rparr>
          in if py_not (active_context_id s4) \<or> c = Some ''initial_default_context''
             then s4\<lparr>active_context_id := Some c_id\<rparr> else s4)"
      have n: "c_id \<noteq> []"
        unfolding c_id_def default_context_id_prefix_def by (simp add: or_default_Cons)
      have w5: "registry_wf s5" using w1 n
        by (auto simp: s5_def Let_def record_event_def registry_wf_def distinct_dict_set
            set_dict_keys_dict_set)
      have "snd (create_context_running s c) =
            snd (create_page_in s5 c_id (Some (''initial_page_for_'' @ c_id)))"
        using Some Pair True
        by (simp add: create_context_running_def Let_def s5_def c_id_def record_event_def
            split: prod.splits sum.splits)
      with wf_create_page_in [OF w5] show ?thesis by simp
    qed
  qed
qed


lemma wf_record_event: "registry_wf (record_event e s) = registry_wf s"
  by (simp add: record_event_def registry_wf_def)

lemma wf_stop_playwright: "registry_wf (stop_playwright s) = registry_wf s"
  by (simp add: stop_playwright_def wf_record_event split: option.splits)

lemma wf_start_browser:
  assumes "registry_wf s"
  shows "registry_wf (snd (start_browser s))"
proof (cases "running s")
  case True
  with assms show ?thesis by (simp add: start_browser_def)
next
  case False
  obtain ok1 s1 where d1: "driver_call s = (ok1, s1)" by (cases "driver_call s")
  have w1: "registry_wf s1" using wf_driver_call [OF assms] d1 by simp
  show ?thesis
  proof (cases ok1)
    case False
    with \<open>\<not> running s\<close> d1 w1 show ?thesis by (simp add: start_browser_def)
  next
    case True
    define s2 where "s2 = record_event (PlaywrightStart (next_handle s1))
                        (s1\<lparr>playwright := Some (next_handle s1),
                            next_handle := Suc (next_handle s1)\<rparr>)"
    have w2: "registry_wf s2" using w1 by (simp add: s2_def record_event_def registry_wf_def)
    obtain ok2 s3 where d2: "driver_call s2 = (ok2, s3)" by (cases "driver_call s2")
    have w3: "registry_wf s3" using wf_driver_call [OF w2] d2 by simp
    show ?thesis
    proof (cases ok2)
      case False
      with \<open>\<not> running s\<close> d1 \<open>ok1\<close> d2 w3 show ?thesis
        by (simp add: start_browser_def Let_def s2_def [symmetric] wf_stop_playwright)
    next
      case True
      define s4 where "s4 = record_event (Launch (next_handle s3))
                                (s3\<lparr>browser := Some (Browser (next_handle s3) True),
                                    next_handle := Suc (next_handle s3)\<rparr>)"
      have w4: "registry_wf s4" using w3 by (simp add: s4_def record_event_def registry_wf_def)
      obtain r s5 where c: "create_context_running s4 (Some ''initial_default_context'') = (r, s5)"
        by (cases "create_context_running s4 (Some ''initial_default_context'')")
      have w5: "registry_wf s5" using wf_create_context_running [OF w4, of "Some ''initial_default_context''"] c by simp
      from \<open>\<not> running s\<close> d1 \<open>ok1\<close> d2 True c w5 show ?thesis
        by (cases r)
           (simp_all add: start_browser_def Let_def s2_def [symmetric] s4_def [symmetric]
              wf_stop_playwright)
    qed
  qed
qed

lemma wf_create_context:
  assumes "registry_wf s"
  shows "registry_wf (snd (create_context s c))"
proof (cases "running s")
  case True
  with wf_create_context_running [OF assms] show ?thesis by (simp add: create_context_def)
next
  case False
  obtain r s1 where sb: "start_browser s = (r, s1)" by (cases "start_browser s")
  have w1: "registry_wf s1" using wf_start_browser [OF assms] sb by simp
  from False sb w1 wf_create_context_running [OF w1] show ?thesis
    by (cases r) (simp_all add: create_context_def)
qed

lemma wf_create_page:
  assumes "registry_wf s"
  shows "registry_wf (snd (create_page s c p))"
proof -
  obtain r s1 where cc: "create_context s None = (r, s1)" by (cases "create_context s None")
  have w1: "registry_wf s1" using wf_create_context [OF assms, of None] cc by simp
  have a: "registry_wf (snd (case create_context s None of
              (Inl e, s1) \<Rightarrow> (Inl e, s1)
            | (Inr c, s1) \<Rightarrow> create_page_in s1 c p))"
    using cc w1 wf_create_page_in [OF w1] by (cases r) simp_all
  show ?thesis
    using assms a wf_create_page_in [OF assms]
    by (simp add: create_page_def Let_def split: option.splits)
qed

lemma wf_set_active_context: "registry_wf s \<Longrightarrow> registry_wf (snd (set_active_context s c))"
  by (simp add: set_active_context_def registry_wf_def split: option.splits)

lemma wf_set_active_page: "registry_wf s \<Longrightarrow> registry_wf (snd (set_active_page s p))"
  by (simp add: set_active_page_def registry_wf_def Let_def split: option.splits)

lemma wf_dict_pop_pages:
  "registry_wf s \<Longrightarrow> registry_wf (s\<lparr>pages := dict_pop k (pages s)\<rparr>)"
  using set_dict_keys_dict_pop [of k "pages s"]
  by (auto simp: registry_wf_def distinct_dict_pop)

lemma wf_dict_pop_contexts:
  "registry_wf s \<Longrightarrow> registry_wf (s\<lparr>contexts := dict_pop k (contexts s)\<rparr>)"
  using set_dict_keys_dict_pop [of k "contexts s"]
  by (auto simp: registry_wf_def distinct_dict_pop)

lemma wf_active_update:
  "registry_wf (s\<lparr>active_page_id := a\<rparr>) = registry_wf s"
  "registry_wf (s\<lparr>active_context_id := b\<rparr>) = registry_wf s"
  by (simp_all add: registry_wf_def)

lemma wf_close_page:
  assumes "registry_wf s"
  shows "registry_wf (snd (close_page s p))"
proof (cases "dict_get (pages s) p")
  case None
  with assms show ?thesis by (simp add: close_page_def)
next
  case (Some pg)
  obtain ok s1 where d: "driver_call (s\<lparr>pages := dict_pop p (pages s)\<rparr>) = (ok, s1)"
    by (cases "driver_call (s\<lparr>pages := dict_pop p (pages s)\<rparr>)")
  have w1: "registry_wf s1"
    using wf_driver_call [OF wf_dict_pop_pages [OF assms, of p]] d by simp
  from Some d w1 show ?thesis
    by (cases ok) (simp_all add: close_page_def Let_def wf_record_event wf_active_update)
qed

lemma wf_close_pages: "registry_wf s \<Longrightarrow> registry_wf (snd (close_pages s pids))"
proof (induction pids arbitrary: s)
  case Nil
  then show ?case by simp
next
  case (Cons pid pids)
  obtain r s1 where c: "close_page s pid = (r, s1)" by (cases "close_page s pid")
  have w1: "registry_wf s1" using wf_close_page [OF Cons.prems, of pid] c by simp
  from c w1 Cons.IH [OF w1] show ?case by (cases r) simp_all
qed

lemma wf_close_context:
  assumes "registry_wf s"
  shows "registry_wf (snd (close_context s c))"
proof (cases "dict_get (contexts s) c")
  case None
  with assms show ?thesis by (simp add: close_context_def)
next
  case (Some ctx)
  define s1 where "s1 = s\<lparr>contexts := dict_pop c (contexts s)\<rparr>"
  define pids where
    "pids = map fst (filter (\<lambda>e. page_context (snd e) = ctx) (pages s1))"
  have w1: "registry_wf s1" unfolding s1_def using assms by (rule wf_dict_pop_contexts)
  obtain r s2 where cp: "close_pages s1 pids = (r, s2)" by (cases "close_pages s1 pids")
  have w2: "registry_wf s2" using wf_close_pages [OF w1, of pids] cp by simp
  obtain ok s3 where d: "driver_call s2 = (ok, s3)" by (cases "driver_call s2")
  have w3: "registry_wf s3" using wf_driver_call [OF w2] d by simp
  have w4: "registry_wf (record_event (ContextClose ctx) s3)" using w3 by (simp add: wf_record_event)
  have sac: "registry_wf (snd (set_active_context
               ((record_event (ContextClose ctx) s3)\<lparr>active_context_id := Some k\<rparr>) k))" for k
    using w4 by (intro wf_set_active_context) (simp add: wf_active_update)
  from Some cp w2 d w3 w4 sac show ?thesis
    by (cases r; cases ok)
       (simp_all add: close_context_def Let_def s1_def [symmetric] pids_def [symmetric]
          wf_active_update split: list.splits)
qed

lemma wf_cleared:
  "registry_wf (s\<lparr>contexts := [], pages := [], active_context_id := None,
                  active_page_id := None\<rparr>)"
  by (simp add: registry_wf_def dict_keys_def)

lemma wf_close_browser:
  assumes "registry_wf s"
  shows "registry_wf (snd (close_browser s))"
  using assms
  by (auto simp: close_browser_def driver_call_def record_event_def registry_wf_def
      dict_keys_def
      split: sum.splits prod.splits bool.splits option.splits if_splits list.splits)

lemma wf_apply_operation: "registry_wf s \<Longrightarrow> registry_wf (apply_operation s op)"
  by (cases op)
     (simp_all add: wf_start_browser wf_create_context wf_create_page wf_set_active_context
        wf_set_active_page wf_close_page wf_close_context wf_close_browser)

lemma wf_run_operations: "registry_wf s \<Longrightarrow> registry_wf (run_operations s ops)"
  unfolding run_operations_def
  by (induction ops arbitrary: s) (simp_all add: wf_apply_operation)

lemma wf_init_manager: "registry_wf (init_manager script)"
  by (simp add: init_manager_def registry_wf_def dict_keys_def)

text \<open>Every state the public operations build from a new manager is well formed.\<close>

lemma registry_wf_reachable: "registry_wf (run_operations (init_manager script) ops)"
  by (rule wf_run_operations [OF wf_init_manager])

subsection \<open>Starting the browser\<close>

text \<open>The manager of a service that has just started, every driver call succeeding.\<close>

lemma start_browser_fresh:
  "start_browser (init_manager []) =
     (Inr (),
      \<lparr>playwright = Some 0, browser = Some (Browser 1 True),
       contexts = [(''initial_default_context'', 2)],
       pages = [(''initial_page_for_initial_default_context'', Page 3 2)],
       active_context_id = Some ''initial_default_context'',
       active_page_id = Some ''initial_page_for_initial_default_context'',
       context_counter = 1, page_counter = 1, next_handle = 4,
       driver_log = [PlaywrightStart 0, Launch 1, NewContext 2, NewPage 3 2],
       driver_script = []\<rparr>)"
  by (simp add: registry_defs Let_def)

text \<open>
  C9. \<^verbatim>\<open>start_browser\<close> is idempotent: when the browser is set and connected, the call
  returns at once, and the manager (browser handle, registries, selection, counters)
  and the driver (no launch, no new context or page) are what they were.
\<close>

theorem start_browser_idempotent:
  "running s \<Longrightarrow> start_browser s = (Inr (), s)"
  by (simp add: start_browser_def)

theorem start_browser_idempotent_witness:
  "running (snd (start_browser (init_manager []))) \<and>
   start_browser (snd (start_browser (init_manager []))) =
     (Inr (), snd (start_browser (init_manager [])))"
proof -
  have r: "running (snd (start_browser (init_manager [])))"
    by (simp add: start_browser_fresh running_def)
  from start_browser_idempotent [OF r] r show ?thesis by simp
qed

lemma browser_create_page_in: "browser (snd (create_page_in s t p)) = browser s"
  by (simp add: create_page_in_def driver_call_def record_event_def Let_def
      split: option.splits list.splits bool.splits)

lemma browser_driver_call: "browser (snd (driver_call s)) = browser s"
  by (simp add: driver_call_def split: list.splits)

lemma browser_create_context_running:
  "browser (snd (create_context_running s c)) = browser s"
proof (cases "browser s")
  case None
  then show ?thesis by (simp add: create_context_running_def)
next
  case (Some b)
  obtain ok s1 where d: "driver_call s = (ok, s1)" by (cases "driver_call s")
  have b1: "browser s1 = browser s" using browser_driver_call [of s] d by simp
  show ?thesis
  proof (cases ok)
    case False
    with Some d b1 show ?thesis by (simp add: create_context_running_def)
  next
    case True
    define c_id where "c_id = or_default c
       (default_context_id_prefix @ str_nat (context_counter s1 + 1))"
    define s5 where "s5 =
       (let s4 = (record_event (NewContext (next_handle s1))
                        (s1\<lparr>next_handle := Suc (next_handle s1)\<rparr>))
                 \<lparr>context_counter := context_counter s1 + 1,
                   contexts := dict_set c_id (next_handle s1) (contexts s1)\<rparr>
        in if py_not (active_context_id s4) \<or> c = Some ''initial_default_context''
           then s4\<lparr>active_context_id := Some c_id\<rparr> else s4)"
    have b5: "browser s5 = browser s1"
      by (simp add: s5_def Let_def record_event_def)
    have "snd (create_context_running s c) =
          snd (create_page_in s5 c_id (Some (''initial_page_for_'' @ c_id)))"
      using Some d True
      by (simp add: create_context_running_def Let_def s5_def c_id_def record_event_def
          split: prod.splits sum.splits)
    with browser_create_page_in [of s5] b5 b1 show ?thesis by simp
  qed
qed

text \<open>A start that succeeds leaves the browser running, so a second start changes nothing.\<close>

lemma start_browser_then_running:
  assumes "fst (start_browser s) = Inr ()"
  shows "running (snd (start_browser s))"
proof (cases "running s")
  case True
  then show ?thesis by (simp add: start_browser_def)
next
  case False
  obtain ok1 s1 where d1: "driver_call s = (ok1, s1)" by (cases "driver_call s")
  show ?thesis
  proof (cases ok1)
    case False
    with \<open>\<not> running s\<close> d1 assms show ?thesis by (simp add: start_browser_def)
  next
    case True
    define s2 where "s2 = record_event (PlaywrightStart (next_handle s1))
                        (s1\<lparr>playwright := Some (next_handle s1),
                            next_handle := Suc (next_handle s1)\<rparr>)"
    obtain ok2 s3 where d2: "driver_call s2 = (ok2, s3)" by (cases "driver_call s2")
    show ?thesis
    proof (cases ok2)
      case False
      with \<open>\<not> running s\<close> d1 \<open>ok1\<close> d2 assms show ?thesis
        by (simp add: start_browser_def Let_def s2_def [symmetric])
    next
      case True
      define s4 where "s4 = record_event (Launch (next_handle s3))
                                (s3\<lparr>browser := Some (Browser (next_handle s3) True),
                                    next_handle := Suc (next_handle s3)\<rparr>)"
      have b4: "browser s4 = Some (Browser (next_handle s3) True)"
        by (simp add: s4_def record_event_def)
      obtain r s5 where c: "create_context_running s4 (Some ''initial_default_context'') = (r, s5)"
        by (cases "create_context_running s4 (Some ''initial_default_context'')")
      have b5: "browser s5 = Some (Browser (next_handle s3) True)"
        using browser_create_context_running [of s4 "Some ''initial_default_context''"] c b4
        by simp
      from \<open>\<not> running s\<close> d1 \<open>ok1\<close> d2 True c b5 assms show ?thesis
        by (cases r)
           (simp_all add: start_browser_def Let_def s2_def [symmetric] s4_def [symmetric]
              running_def)
    qed
  qed
qed

lemma start_browser_twice:
  assumes "fst (start_browser s) = Inr ()"
  shows "start_browser (snd (start_browser s)) = (Inr (), snd (start_browser s))"
  using start_browser_then_running [OF assms] by (simp add: start_browser_def)

subsection \<open>The selection invariant\<close>

text \<open>
  C4. The selection invariant does not hold in every reachable state: after
  \<^verbatim>\<open>start_browser()\<close> and \<^verbatim>\<open>create_context()\<close> the active page is the initial page of the
  new context while the active context is still the first one.
\<close>

theorem selection_inconsistent_after_create_context:
  "\<not> selection_consistent
       (run_operations (init_manager []) [StartBrowser, CreateContext None])"
  by code_simp

text \<open>Closing the active page breaks the selection invariant as well.\<close>

lemma selection_inconsistent_after_close_page:
  "\<not> selection_consistent
       (run_operations (init_manager [])
          [StartBrowser, CreateContext None, SetActiveContext ''default_ctx_2'',
           ClosePage ''initial_page_for_default_ctx_2''])"
  by code_simp

section \<open>Properties of the dispatcher\<close>

text \<open>
  C1. A body that parses to a JSON array does not get an envelope: line 62 calls
  \<^verbatim>\<open>.get\<close> on it before line 63 tests that it is a \<^verbatim>\<open>dict\<close>, and the \<^verbatim>\<open>AttributeError\<close>
  leaves the handler.
\<close>

theorem jsonrpc_handler_array_body:
  "jsonrpc_handler rt st (Some (JArr xs)) = (Inl AttributeError, st)"
  by (simp add: jsonrpc_handler_def)

text \<open>
  C7. The method name \<^verbatim>\<open>initialize_routes\<close> is no api method, yet the request is not
  answered with MethodNotFound: the function is called with the parameters and the id,
  which replaces the module's browser manager, and the failed \<^verbatim>\<open>await\<close> is reported as
  an internal error.
\<close>

theorem initialize_routes_dispatched:
  "jsonrpc_handler rt st
     (Some (JObj [(''jsonrpc'', JStr ''2.0''), (''method'', JStr ''initialize_routes''),
                  (''id'', JInt 1)])) =
   (Inr (create_jsonrpc_error (JInt 1) JSON_RPC_INTERNAL_ERROR
           (''Server error: '' @ exc_text rt TypeError) JNull),
    st\<lparr>browser_manager := NotAManager (JObj [])\<rparr>)"
  by (simp add: jsonrpc_handler_def json_get_def dict_get_def dict_keys_def replace_dots_def
      routes_getattr_def routes_names_def get_params_def)














section \<open>Closing what is not there\<close>








section \<open>Switching the active context\<close>










section \<open>Creating a page when no context exists\<close>



lemma startswith_append: "startswith (p @ s) p"
  by (simp add: startswith_def)

lemma or_default_nonempty: "d \<noteq> [] \<Longrightarrow> or_default a d \<noteq> []"
  by (simp add: or_default_def split: option.splits)












text \<open>On a manager whose browser was never started, the same call leaves two contexts.\<close>

lemma create_page_before_start:
  "dict_keys (contexts (snd (create_page (init_manager []) None None))) =
     [''initial_default_context'', ''default_ctx_2''] \<and>
   dict_keys (pages (snd (create_page (init_manager []) None None))) =
     [''initial_page_for_initial_default_context'', ''initial_page_for_default_ctx_2'',
      ''default_page_3'']"
  by code_simp

section \<open>Creating under an id that is taken\<close>










section \<open>Closing a context and its pages\<close>

lemma close_page_contexts: "contexts (snd (close_page s pid)) = contexts s"
  by (simp add: close_page_def driver_call_def record_event_def Let_def
      split: option.splits list.splits bool.splits)

lemma close_pages_contexts: "contexts (snd (close_pages s pids)) = contexts s"
proof (induction pids arbitrary: s)
  case Nil
  show ?case by simp
next
  case (Cons pid pids)
  obtain r s1 where c: "close_page s pid = (r, s1)" by (cases "close_page s pid")
  have "contexts s1 = contexts s" using close_page_contexts [of s pid] c by simp
  with Cons.IH [of s1] c show ?case by (cases r) simp_all
qed

lemma set_active_context_keeps:
  "contexts (snd (set_active_context s c)) = contexts s"
  "pages (snd (set_active_context s c)) = pages s"
  "driver_log (snd (set_active_context s c)) = driver_log s"
  by (simp_all add: set_active_context_def split: option.splits)

lemma dict_get_dict_pop: "dict_get (dict_pop k d) k = None"
  by (induction d) (auto simp: dict_get_def dict_pop_def)

lemma close_context_removes_context:
  "get_context_by_id (snd (close_context s c)) c = None"
proof (cases "dict_get (contexts s) c")
  case None
  then show ?thesis by (simp add: close_context_def get_context_by_id_def)
next
  case (Some ctx)
  define s1 where "s1 = s\<lparr>contexts := dict_pop c (contexts s)\<rparr>"
  define pids where
    "pids = map fst (filter (\<lambda>e. page_context (snd e) = ctx) (pages s1))"
  have g: "dict_get (contexts s1) c = None" by (simp add: s1_def dict_get_dict_pop)
  obtain r s2 where cp: "close_pages s1 pids = (r, s2)" by (cases "close_pages s1 pids")
  have c2: "contexts s2 = contexts s1" using close_pages_contexts [of s1 pids] cp by simp
  have "contexts (snd (close_context s c)) = contexts s1"
    using Some cp c2
    by (cases r)
       (simp_all add: close_context_def Let_def s1_def [symmetric] pids_def [symmetric]
          driver_call_def record_event_def set_active_context_keeps
          split: list.splits bool.splits)
  with g show ?thesis by (simp add: get_context_by_id_def)
qed


lemma dict_get_member:
  assumes "distinct (dict_keys d)" "e \<in> set d"
  shows "dict_get d (fst e) = Some (snd e)"
proof -
  from assms(2) have "(fst e, snd e) \<in> set d" by simp
  with assms(1) show ?thesis unfolding dict_keys_def dict_get_def by (rule_tac map_of_is_SomeI)
qed

lemma close_page_ok:
  assumes "driver_script s = []" "dict_get (pages s) pid = Some pg"
  shows "\<exists>s'. close_page s pid = (Inr True, s') \<and>
           pages s' = dict_pop pid (pages s) \<and> contexts s' = contexts s \<and>
           driver_log s' = driver_log s @ [PageClose (page_handle pg)] \<and>
           driver_script s' = [] \<and> active_context_id s' = active_context_id s"
  using assms
  by (simp add: close_page_def driver_call_def record_event_def Let_def)

lemma close_pages_ok:
  assumes "driver_script s = []" "distinct (dict_keys (pages s))"
    "set es \<subseteq> set (pages s)" "distinct (map fst es)"
  shows "\<exists>s'. close_pages s (map fst es) = (Inr (), s') \<and>
           pages s' = filter (\<lambda>e. fst e \<notin> fst ` set es) (pages s) \<and>
           contexts s' = contexts s \<and>
           driver_log s' = driver_log s @ map (\<lambda>e. PageClose (page_handle (snd e))) es \<and>
           driver_script s' = [] \<and> active_context_id s' = active_context_id s"
  using assms
proof (induction es arbitrary: s)
  case Nil
  then show ?case by simp
next
  case (Cons e es)
  from Cons.prems(3) have m: "e \<in> set (pages s)" by simp
  from dict_get_member [OF Cons.prems(2) m]
  have g: "dict_get (pages s) (fst e) = Some (snd e)" .
  from close_page_ok [OF Cons.prems(1) g] obtain s1 where
    c: "close_page s (fst e) = (Inr True, s1)" and
    p1: "pages s1 = dict_pop (fst e) (pages s)" and
    c1: "contexts s1 = contexts s" and
    l1: "driver_log s1 = driver_log s @ [PageClose (page_handle (snd e))]" and
    d1: "driver_script s1 = []" and
    a1: "active_context_id s1 = active_context_id s"
    by blast
  have dist1: "distinct (dict_keys (pages s1))"
    using Cons.prems(2) unfolding p1 dict_pop_def dict_keys_def by (rule distinct_map_filter)
  have sub1: "set es \<subseteq> set (pages s1)"
  proof
    fix x assume x: "x \<in> set es"
    with Cons.prems(3) have "x \<in> set (pages s)" by auto
    moreover have "fst x \<noteq> fst e"
    proof
      assume "fst x = fst e"
      with x have "fst e \<in> fst ` set es" by (metis imageI)
      with Cons.prems(4) show False by simp
    qed
    ultimately show "x \<in> set (pages s1)" by (simp add: p1 dict_pop_def)
  qed
  from Cons.prems(4) have dist_es: "distinct (map fst es)" by simp
  from Cons.IH [OF d1 dist1 sub1 dist_es] obtain s' where
    r: "close_pages s1 (map fst es) = (Inr (), s')" and
    p': "pages s' = filter (\<lambda>x. fst x \<notin> fst ` set es) (pages s1)" and
    c': "contexts s' = contexts s1" and
    l': "driver_log s' = driver_log s1 @ map (\<lambda>e. PageClose (page_handle (snd e))) es" and
    d': "driver_script s' = []" and
    a': "active_context_id s' = active_context_id s1"
    by blast
  have f: "filter (\<lambda>x. fst x \<notin> fst ` set es) (dict_pop (fst e) (pages s)) =
           filter (\<lambda>x. fst x \<notin> fst ` set (e # es)) (pages s)"
    unfolding dict_pop_def filter_filter by (rule filter_cong) auto
  have "close_pages s (map fst (e # es)) = (Inr (), s')" using c r by simp
  moreover have "pages s' = filter (\<lambda>x. fst x \<notin> fst ` set (e # es)) (pages s)"
    unfolding p' p1 f ..
  moreover have "contexts s' = contexts s" using c' c1 by simp
  moreover have "driver_log s' =
      driver_log s @ map (\<lambda>e. PageClose (page_handle (snd e))) (e # es)"
    using l' l1 by simp
  moreover have "active_context_id s' = active_context_id s" using a' a1 by simp
  ultimately show ?case using d' by blast
qed

lemma owned_filter:
  assumes "distinct (dict_keys d)"
  shows "filter (\<lambda>e. fst e \<notin> fst ` set (filter P d)) d = filter (\<lambda>e. \<not> P e) d"
proof (rule filter_cong [OF refl])
  fix e assume e: "e \<in> set d"
  have "fst e \<in> fst ` set (filter P d) \<longleftrightarrow> P e"
  proof
    assume "fst e \<in> fst ` set (filter P d)"
    then obtain e' where e': "e' \<in> set d" "P e'" "fst e' = fst e" by auto
    from dict_get_member [OF assms e'(1)] dict_get_member [OF assms e] e'(3)
    have "snd e' = snd e" by simp
    with e'(3) have "e' = e" by (simp add: prod_eq_iff)
    with e'(2) show "P e" by simp
  next
    assume "P e"
    with e show "fst e \<in> fst ` set (filter P d)" by auto
  qed
  then show "(fst e \<notin> fst ` set (filter P d)) = (\<not> P e)" by simp
qed

lemma close_context_ok:
  assumes "dict_get (contexts s) c = Some ctx" "driver_script s = []"
    "distinct (dict_keys (pages s))"
  shows "fst (close_context s c) = Inr True \<and>
         pages (snd (close_context s c)) =
           filter (\<lambda>e. page_context (snd e) \<noteq> ctx) (pages s) \<and>
         driver_log (snd (close_context s c)) =
           driver_log s @
           map (\<lambda>e. PageClose (page_handle (snd e)))
             (filter (\<lambda>e. page_context (snd e) = ctx) (pages s)) @
           [ContextClose ctx]"
proof -
  define s1 where "s1 = s\<lparr>contexts := dict_pop c (contexts s)\<rparr>"
  define es where "es = filter (\<lambda>e. page_context (snd e) = ctx) (pages s1)"
  have es: "es = filter (\<lambda>e. page_context (snd e) = ctx) (pages s)" by (simp add: es_def s1_def)
  have d1: "driver_script s1 = []" using assms(2) by (simp add: s1_def)
  have dist1: "distinct (dict_keys (pages s1))" using assms(3) by (simp add: s1_def)
  have sub: "set es \<subseteq> set (pages s1)" by (auto simp: es_def)
  have dist_es: "distinct (map fst es)"
    using dist1 unfolding es_def dict_keys_def by (rule distinct_map_filter)
  from close_pages_ok [OF d1 dist1 sub dist_es] obtain s2 where
    r: "close_pages s1 (map fst es) = (Inr (), s2)" and
    p2: "pages s2 = filter (\<lambda>e. fst e \<notin> fst ` set es) (pages s1)" and
    l2: "driver_log s2 = driver_log s1 @ map (\<lambda>e. PageClose (page_handle (snd e))) es" and
    d2: "driver_script s2 = []"
    by blast
  have p2': "pages s2 = filter (\<lambda>e. page_context (snd e) \<noteq> ctx) (pages s)"
    using owned_filter [OF assms(3), of "\<lambda>e. page_context (snd e) = ctx"]
    by (simp add: p2 es s1_def)
  have l2': "driver_log s2 = driver_log s @ map (\<lambda>e. PageClose (page_handle (snd e)))
             (filter (\<lambda>e. page_context (snd e) = ctx) (pages s))"
    by (simp add: l2 es s1_def)
  show ?thesis
    using assms(1) r d2 p2' l2'
    by (simp add: close_context_def Let_def s1_def [symmetric] es_def [symmetric]
        driver_call_def record_event_def set_active_context_keeps split: list.splits)
qed


lemma owned_pages_absent:
  assumes "distinct (dict_keys d)" "p \<in> set (map fst (filter P d))"
  shows "dict_get (filter (\<lambda>e. \<not> P e) d) p = None"
proof (rule ccontr)
  assume "dict_get (filter (\<lambda>e. \<not> P e) d) p \<noteq> None"
  then obtain v where "map_of (filter (\<lambda>e. \<not> P e) d) p = Some v"
    by (auto simp: dict_get_def)
  then have "(p, v) \<in> set (filter (\<lambda>e. \<not> P e) d)" by (rule map_of_SomeD)
  then have m: "(p, v) \<in> set d" and n: "\<not> P (p, v)" by simp_all
  from assms(2) obtain e where e: "e \<in> set d" "P e" "fst e = p" by auto
  from dict_get_member [OF assms(1) e(1)] dict_get_member [OF assms(1) m] e(3)
  have "snd e = v" by simp
  with e(3) have "e = (p, v)" by (simp add: prod_eq_iff)
  with e(2) n show False by simp
qed

text \<open>
  C8, as amended. \<^verbatim>\<open>close_context(C)\<close> removes C from the registry first, so C is absent
  afterwards however the driver calls end. When no driver call fails and C was tracked
  in a well-formed registry, the call returns \<^verbatim>\<open>True\<close>, every tracked page owned by C is absent from later lookups
  while the other pages stay, and the driver has closed those pages, oldest first, and
  then the context.
\<close>

theorem close_context_cascades:
  "get_context_by_id (snd (close_context s c)) c = None \<and>
   (dict_get (contexts s) c = Some ctx \<and> driver_script s = [] \<and> registry_wf s \<longrightarrow>
      fst (close_context s c) = Inr True \<and>
      (\<forall>p \<in> set (pages_of s ctx). get_page_by_id (snd (close_context s c)) p = None) \<and>
      pages (snd (close_context s c)) =
        filter (\<lambda>e. page_context (snd e) \<noteq> ctx) (pages s) \<and>
      driver_log (snd (close_context s c)) =
        driver_log s @
        map (\<lambda>e. PageClose (page_handle (snd e)))
          (filter (\<lambda>e. page_context (snd e) = ctx) (pages s)) @
        [ContextClose ctx])"
proof (intro conjI impI)
  show "get_context_by_id (snd (close_context s c)) c = None"
    by (rule close_context_removes_context)
next
  assume a0: "dict_get (contexts s) c = Some ctx \<and> driver_script s = [] \<and> registry_wf s"
  then have a: "dict_get (contexts s) c = Some ctx \<and> driver_script s = [] \<and>
    distinct (dict_keys (pages s))"
    by (simp add: registry_wf_def)
  then have ok: "fst (close_context s c) = Inr True \<and>
         pages (snd (close_context s c)) =
           filter (\<lambda>e. page_context (snd e) \<noteq> ctx) (pages s) \<and>
         driver_log (snd (close_context s c)) =
           driver_log s @
           map (\<lambda>e. PageClose (page_handle (snd e)))
             (filter (\<lambda>e. page_context (snd e) = ctx) (pages s)) @
           [ContextClose ctx]"
    by (intro close_context_ok) simp_all
  from ok show "fst (close_context s c) = Inr True" by simp
  from ok show "pages (snd (close_context s c)) =
        filter (\<lambda>e. page_context (snd e) \<noteq> ctx) (pages s)" by simp
  from ok show "driver_log (snd (close_context s c)) =
        driver_log s @
        map (\<lambda>e. PageClose (page_handle (snd e)))
          (filter (\<lambda>e. page_context (snd e) = ctx) (pages s)) @
        [ContextClose ctx]" by simp
  show "\<forall>p \<in> set (pages_of s ctx). get_page_by_id (snd (close_context s c)) p = None"
  proof
    fix p assume "p \<in> set (pages_of s ctx)"
    then have "p \<in> set (map fst (filter (\<lambda>e. page_context (snd e) = ctx) (pages s)))"
      by (simp add: pages_of_def)
    with a have "dict_get (filter (\<lambda>e. \<not> page_context (snd e) = ctx) (pages s)) p = None"
      by (intro owned_pages_absent) simp_all
    with ok show "get_page_by_id (snd (close_context s c)) p = None"
      by (simp add: get_page_by_id_def)
  qed
qed

lemma two_pages_then_failure:
  "run_operations (init_manager [True, True, True, True, True, False])
     [StartBrowser, CreatePage None None] =
   \<lparr>playwright = Some 0, browser = Some (Browser 1 True),
     contexts = [(''initial_default_context'', 2)],
     pages =
       [(''initial_page_for_initial_default_context'', Page 3 2),
        (''default_page_2'', Page 4 2)],
     active_context_id = Some ''initial_default_context'',
     active_page_id = Some ''initial_page_for_initial_default_context'',
     context_counter = 1, page_counter = 2, next_handle = 5,
     driver_log =
       [PlaywrightStart 0, Launch 1, NewContext 2, NewPage 3 2,
        NewPage 4 2],
     driver_script = [False]\<rparr>"
  by code_simp

text \<open>
  C8 as stated fails on the order: C is removed before its pages. When closing the first
  of its two pages fails, C is gone from the registry and its second page is still there.
\<close>

theorem context_removed_before_its_pages:
  "get_context_by_id
     (run_operations (init_manager [True, True, True, True, True, False])
        [StartBrowser, CreatePage None None]) ''initial_default_context'' = Some 2 \<and>
   pages_of
     (run_operations (init_manager [True, True, True, True, True, False])
        [StartBrowser, CreatePage None None]) 2 =
     [''initial_page_for_initial_default_context'', ''default_page_2''] \<and>
   fst (close_context
          (run_operations (init_manager [True, True, True, True, True, False])
             [StartBrowser, CreatePage None None]) ''initial_default_context'') =
     Inl DriverError \<and>
   get_context_by_id
     (snd (close_context
             (run_operations (init_manager [True, True, True, True, True, False])
                [StartBrowser, CreatePage None None]) ''initial_default_context''))
     ''initial_default_context'' = None \<and>
   get_page_by_id
     (snd (close_context
             (run_operations (init_manager [True, True, True, True, True, False])
                [StartBrowser, CreatePage None None]) ''initial_default_context''))
     ''default_page_2'' = Some (Page 4 2)"
  unfolding two_pages_then_failure
  by (simp add: get_context_by_id_def get_page_by_id_def pages_of_def dict_get_def
      close_context_def close_page_def dict_pop_def driver_call_def Let_def)

lemma two_pages:
  "run_operations (init_manager []) [StartBrowser, CreatePage None None] =
   \<lparr>playwright = Some 0, browser = Some (Browser 1 True),
     contexts = [(''initial_default_context'', 2)],
     pages =
       [(''initial_page_for_initial_default_context'', Page 3 2),
        (''default_page_2'', Page 4 2)],
     active_context_id = Some ''initial_default_context'',
     active_page_id = Some ''initial_page_for_initial_default_context'',
     context_counter = 1, page_counter = 2, next_handle = 5,
     driver_log =
       [PlaywrightStart 0, Launch 1, NewContext 2, NewPage 3 2,
        NewPage 4 2],
     driver_script = []\<rparr>"
  by code_simp

theorem close_context_cascades_witness:
  "dict_get (contexts (run_operations (init_manager []) [StartBrowser, CreatePage None None]))
     ''initial_default_context'' = Some 2 \<and>
   pages_of (run_operations (init_manager []) [StartBrowser, CreatePage None None]) 2 =
     [''initial_page_for_initial_default_context'', ''default_page_2''] \<and>
   fst (close_context (run_operations (init_manager []) [StartBrowser, CreatePage None None])
          ''initial_default_context'') = Inr True \<and>
   get_context_by_id
     (snd (close_context (run_operations (init_manager []) [StartBrowser, CreatePage None None])
             ''initial_default_context'')) ''initial_default_context'' = None \<and>
   get_page_by_id
     (snd (close_context (run_operations (init_manager []) [StartBrowser, CreatePage None None])
             ''initial_default_context'')) ''initial_page_for_initial_default_context'' = None \<and>
   get_page_by_id
     (snd (close_context (run_operations (init_manager []) [StartBrowser, CreatePage None None])
             ''initial_default_context'')) ''default_page_2'' = None \<and>
   driver_log
     (snd (close_context (run_operations (init_manager []) [StartBrowser, CreatePage None None])
             ''initial_default_context'')) =
     [PlaywrightStart 0, Launch 1, NewContext 2, NewPage 3 2, NewPage 4 2,
      PageClose 3, PageClose 4, ContextClose 2]"
proof -
  let ?s = "run_operations (init_manager []) [StartBrowser, CreatePage None None]"
  let ?c = "''initial_default_context''"
  have c: "dict_get (contexts ?s) ?c = Some 2" by (simp add: two_pages dict_get_def)
  have d: "driver_script ?s = []" by (simp add: two_pages)
  have k: "registry_wf ?s" by (rule registry_wf_reachable)
  have o: "pages_of ?s 2 =
     [''initial_page_for_initial_default_context'', ''default_page_2'']"
    by (simp add: two_pages pages_of_def)
  have l: "driver_log ?s @
        map (\<lambda>e. PageClose (page_handle (snd e)))
          (filter (\<lambda>e. page_context (snd e) = 2) (pages ?s)) @ [ContextClose 2] =
     [PlaywrightStart 0, Launch 1, NewContext 2, NewPage 3 2, NewPage 4 2,
      PageClose 3, PageClose 4, ContextClose 2]"
    by (simp add: two_pages)
  from close_context_cascades [of ?s ?c 2] c d k
  have 1: "get_context_by_id (snd (close_context ?s ?c)) ?c = None"
    and 2: "fst (close_context ?s ?c) = Inr True"
    and 3: "\<forall>p \<in> set (pages_of ?s 2). get_page_by_id (snd (close_context ?s ?c)) p = None"
    and 4: "driver_log (snd (close_context ?s ?c)) =
        driver_log ?s @
        map (\<lambda>e. PageClose (page_handle (snd e)))
          (filter (\<lambda>e. page_context (snd e) = 2) (pages ?s)) @ [ContextClose 2]"
    by blast+
  from 3 have 5: "get_page_by_id (snd (close_context ?s ?c))
       ''initial_page_for_initial_default_context'' = None"
    and 6: "get_page_by_id (snd (close_context ?s ?c)) ''default_page_2'' = None"
    unfolding o by simp_all
  from c o 1 2 5 6 4 [unfolded l] show ?thesis by blast
qed

end
